theory Spec2Isabelle
  imports Complex_Main
begin

section \<open>Python values\<close>

text \<open>
  In the risk predictor Python floats and ints are modelled as exact reals; the arithmetic
  of the vitals analyzer and of the anomaly detector is modelled as IEEE double arithmetic
  (see below). A dictionary entry read with
  \<^verbatim>\<open>d.get(k, default)\<close> is in one of three states: the key is absent, the key is
  present with value \<^verbatim>\<open>None\<close> (what an omitted \<^verbatim>\<open>Optional\<close> field of a pydantic
  model becomes under \<^verbatim>\<open>.dict()\<close>), or the key is present with a value.
\<close>

datatype py_error = TypeError | KeyError | IndexError

datatype 'a entry = Absent | PyNone | Val 'a

text \<open>\<^verbatim>\<open>d.get(k, default)\<close>: the result \<open>None\<close> is Python's \<^verbatim>\<open>None\<close>.\<close>

definition dict_get :: "'a entry \<Rightarrow> 'a \<Rightarrow> 'a option" where
  "dict_get e d = (case e of Absent \<Rightarrow> Some d | PyNone \<Rightarrow> None | Val x \<Rightarrow> Some x)"

text \<open>\<^verbatim>\<open>d.get(k)\<close>: an absent key reads as \<^verbatim>\<open>None\<close>.\<close>

definition dict_get0 :: "'a entry \<Rightarrow> 'a option" where
  "dict_get0 e = (case e of Absent \<Rightarrow> None | PyNone \<Rightarrow> None | Val x \<Rightarrow> Some x)"

text \<open>Truthiness of a flag read with \<^verbatim>\<open>d.get(k)\<close>: \<^verbatim>\<open>None\<close> is falsy.\<close>

definition truthy :: "bool option \<Rightarrow> bool" where
  "truthy b = (case b of None \<Rightarrow> False | Some v \<Rightarrow> v)"

text \<open>
  The first ordering comparison of a value with a number (\<^verbatim>\<open>age > 65\<close>) raises
  \<^verbatim>\<open>TypeError\<close> when the value is \<^verbatim>\<open>None\<close>; otherwise the number is available to
  the comparisons that follow.
\<close>

definition num :: "real option \<Rightarrow> py_error + real" where
  "num v = (case v of None \<Rightarrow> Inl TypeError | Some x \<Rightarrow> Inr x)"

definition ebind :: "py_error + 'a \<Rightarrow> ('a \<Rightarrow> py_error + 'b) \<Rightarrow> py_error + 'b" where
  "ebind m f = (case m of Inl e \<Rightarrow> Inl e | Inr x \<Rightarrow> f x)"

section \<open>Schemas and configuration\<close>

datatype RiskLevel = LOW | MEDIUM | HIGH | CRITICAL

text \<open>An f-string with at most one interpolated number.\<close>

datatype fstring = Plain string | Interp string real string

record RiskFactor =
  factor :: string
  impact :: real
  description :: fstring

record Recommendation =
  category :: string
  priority :: string
  rec_description :: string
  actionItems :: "string list"

record Settings =
  risk_low_threshold :: real
  risk_medium_threshold :: real
  risk_high_threshold :: real

text \<open>The defaults of \<^verbatim>\<open>config.py\<close>.\<close>

definition settings :: Settings where
  "settings = \<lparr>risk_low_threshold = 0.3, risk_medium_threshold = 0.6, risk_high_threshold = 0.8\<rparr>"

section \<open>Condition scorers\<close>

text \<open>The feature dictionary handed to a scorer, one entry per key a scorer reads.\<close>

record features =
  age :: "real entry"
  restingBP :: "real entry"
  cholesterol :: "real entry"
  fastingBloodSugar :: "bool entry"
  exerciseInducedAngina :: "bool entry"
  bmi :: "real entry"
  glucoseLevel :: "real entry"
  bloodPressure :: "real entry"
  hypertension :: "bool entry"
  heartDisease :: "bool entry"
  avgGlucoseLevel :: "real entry"
  smokingStatus :: "string entry"
  gender :: "string entry"
  maxHeartRate :: "real entry"

definition no_features :: features where
  "no_features = \<lparr>age = Absent, restingBP = Absent, cholesterol = Absent,
     fastingBloodSugar = Absent, exerciseInducedAngina = Absent, bmi = Absent,
     glucoseLevel = Absent, bloodPressure = Absent, hypertension = Absent,
     heartDisease = Absent, avgGlucoseLevel = Absent, smokingStatus = Absent,
     gender = Absent, maxHeartRate = Absent\<rparr>"

definition determine_risk_level :: "Settings \<Rightarrow> real \<Rightarrow> RiskLevel" where
  "determine_risk_level cfg risk_score =
     (if risk_score < risk_low_threshold cfg then LOW
      else if risk_score < risk_medium_threshold cfg then MEDIUM
      else if risk_score < risk_high_threshold cfg then HIGH
      else CRITICAL)"

subsection \<open>HeartDiseasePredictor\<close>

definition Heart_calculate_risk_score :: "features \<Rightarrow> py_error + real" where
  "Heart_calculate_risk_score data =
     ebind (num (dict_get (age data) 50)) (\<lambda>a.
     let score = 0 + (if a > 65 then 0.3 else if a > 55 then 0.2 else if a > 45 then 0.1 else 0) in
     ebind (num (dict_get (restingBP data) 120)) (\<lambda>bp.
     let score = score + (if bp > 140 then 0.25 else if bp > 130 then 0.15 else 0) in
     ebind (num (dict_get (cholesterol data) 200)) (\<lambda>c.
     let score = score + (if c > 240 then 0.2 else if c > 200 then 0.1 else 0);
         score = score + (if truthy (dict_get0 (fastingBloodSugar data)) then 0.15 else 0);
         score = score + (if truthy (dict_get0 (exerciseInducedAngina data)) then 0.2 else 0)
     in Inr (min score 1.0))))"

definition Heart_identify_risk_factors :: "features \<Rightarrow> real \<Rightarrow> py_error + RiskFactor list" where
  "Heart_identify_risk_factors data risk_score =
     ebind (num (dict_get (age data) 50)) (\<lambda>a.
     let factors = [] @ (if a > 55 then
           [\<lparr>factor = ''Age'', impact = min ((a - 55) / 30) 0.3,
             description = Interp ''Age '' a '' increases cardiovascular risk''\<rparr>] else []) in
     ebind (num (dict_get (restingBP data) 120)) (\<lambda>bp.
     let factors = factors @ (if bp > 130 then
           [\<lparr>factor = ''High Blood Pressure'', impact = min ((bp - 130) / 50) 0.3,
             description = Interp ''Blood pressure '' bp '' mmHg is elevated''\<rparr>] else []) in
     ebind (num (dict_get (cholesterol data) 200)) (\<lambda>c.
     let factors = factors @ (if c > 200 then
           [\<lparr>factor = ''High Cholesterol'', impact = min ((c - 200) / 100) 0.25,
             description = Interp ''Cholesterol level '' c '' mg/dL is high''\<rparr>] else []);
         factors = factors @ (if truthy (dict_get0 (exerciseInducedAngina data)) then
           [\<lparr>factor = ''Exercise-Induced Angina'', impact = 0.2,
             description = Plain ''Chest pain during exercise indicates cardiac stress''\<rparr>] else [])
     in Inr factors)))"

text \<open>
  \<^verbatim>\<open>predict\<close> returns \<open>(risk_score, confidence, risk_factors)\<close>. The array built by
  \<^verbatim>\<open>_prepare_features\<close> is not used by the rule-based score and is left out.
\<close>

definition Heart_predict :: "features \<Rightarrow> py_error + (real \<times> real \<times> RiskFactor list)" where
  "Heart_predict data =
     ebind (Heart_calculate_risk_score data) (\<lambda>risk_score.
     let confidence = 0.85 in
     ebind (Heart_identify_risk_factors data risk_score) (\<lambda>risk_factors.
     Inr (risk_score, confidence, risk_factors)))"

subsection \<open>DiabetesPredictor\<close>

definition Diabetes_calculate_risk_score :: "features \<Rightarrow> py_error + real" where
  "Diabetes_calculate_risk_score data =
     ebind (num (dict_get (bmi data) 25)) (\<lambda>b.
     let score = 0 + (if b > 30 then 0.3 else if b > 25 then 0.15 else 0) in
     ebind (num (dict_get (glucoseLevel data) 100)) (\<lambda>glucose.
     let score = score + (if glucose > 126 then 0.4 else if glucose > 100 then 0.2 else 0) in
     ebind (num (dict_get (bloodPressure data) 80)) (\<lambda>bp.
     let score = score + (if bp > 90 then 0.15 else 0) in
     ebind (num (dict_get (age data) 40)) (\<lambda>a.
     let score = score + (if a > 45 then 0.15 else 0)
     in Inr (min score 1.0)))))"

definition Diabetes_identify_risk_factors :: "features \<Rightarrow> real \<Rightarrow> py_error + RiskFactor list" where
  "Diabetes_identify_risk_factors data risk_score =
     ebind (num (dict_get (bmi data) 25)) (\<lambda>b.
     let factors = [] @ (if b > 25 then
           [\<lparr>factor = ''Elevated BMI'', impact = min ((b - 25) / 15) 0.3,
             description = Interp ''BMI of '' b '' increases diabetes risk''\<rparr>] else []) in
     ebind (num (dict_get (glucoseLevel data) 100)) (\<lambda>glucose.
     let factors = factors @ (if glucose > 100 then
           [\<lparr>factor = ''Elevated Glucose'', impact = min ((glucose - 100) / 100) 0.4,
             description = Interp ''Fasting glucose '' glucose '' mg/dL is elevated''\<rparr>] else [])
     in Inr factors))"

definition Diabetes_predict :: "features \<Rightarrow> py_error + (real \<times> real \<times> RiskFactor list)" where
  "Diabetes_predict data =
     ebind (Diabetes_calculate_risk_score data) (\<lambda>risk_score.
     let confidence = 0.82 in
     ebind (Diabetes_identify_risk_factors data risk_score) (\<lambda>risk_factors.
     Inr (risk_score, confidence, risk_factors)))"

subsection \<open>StrokePredictor\<close>

text \<open>\<^verbatim>\<open>data.get("smokingStatus") in ["formerly smoked", "smokes"]\<close>\<close>

definition smoker :: "string option \<Rightarrow> bool" where
  "smoker s = (case s of None \<Rightarrow> False | Some v \<Rightarrow> v \<in> set [''formerly smoked'', ''smokes''])"

definition Stroke_calculate_risk_score :: "features \<Rightarrow> py_error + real" where
  "Stroke_calculate_risk_score data =
     ebind (num (dict_get (age data) 50)) (\<lambda>a.
     let score = 0 + (if a > 65 then 0.3 else if a > 55 then 0.15 else 0);
         score = score + (if truthy (dict_get0 (hypertension data)) then 0.25 else 0);
         score = score + (if truthy (dict_get0 (heartDisease data)) then 0.25 else 0) in
     ebind (num (dict_get (avgGlucoseLevel data) 100)) (\<lambda>glucose.
     let score = score + (if glucose > 125 then 0.15 else 0) in
     ebind (num (dict_get (bmi data) 25)) (\<lambda>b.
     let score = score + (if b > 30 then 0.1 else 0);
         score = score + (if smoker (dict_get0 (smokingStatus data)) then 0.15 else 0)
     in Inr (min score 1.0))))"

definition Stroke_identify_risk_factors :: "features \<Rightarrow> real \<Rightarrow> py_error + RiskFactor list" where
  "Stroke_identify_risk_factors data risk_score =
     (let factors = [] @ (if truthy (dict_get0 (hypertension data)) then
           [\<lparr>factor = ''Hypertension'', impact = 0.25,
             description = Plain ''Hypertension significantly increases stroke risk''\<rparr>] else []);
          factors = factors @ (if truthy (dict_get0 (heartDisease data)) then
           [\<lparr>factor = ''Heart Disease'', impact = 0.25,
             description = Plain ''Existing heart disease increases stroke risk''\<rparr>] else []);
          factors = factors @ (if smoker (dict_get0 (smokingStatus data)) then
           [\<lparr>factor = ''Smoking'', impact = 0.15,
             description = Plain ''Smoking damages blood vessels and increases risk''\<rparr>] else [])
      in Inr factors)"

definition Stroke_predict :: "features \<Rightarrow> py_error + (real \<times> real \<times> RiskFactor list)" where
  "Stroke_predict data =
     ebind (Stroke_calculate_risk_score data) (\<lambda>risk_score.
     let confidence = 0.80 in
     ebind (Stroke_identify_risk_factors data risk_score) (\<lambda>risk_factors.
     Inr (risk_score, confidence, risk_factors)))"

section \<open>GeneralRiskPredictor\<close>

text \<open>
  The patient dictionary (\<^verbatim>\<open>PatientHistoryInput.dict()\<close> at the API): the keys the
  aggregator reads. The optional fields \<^verbatim>\<open>bmi\<close> and \<^verbatim>\<open>smokingStatus\<close> are
  \<open>PyNone\<close> when the request omits them.
\<close>

record patient_data =
  p_age :: "real entry"
  p_gender :: "string entry"
  p_bmi :: "real entry"
  p_chronicConditions :: "string list entry"
  p_smokingStatus :: "string entry"

text \<open>One reading of the vitals list; \<^verbatim>\<open>type\<close> and \<^verbatim>\<open>value\<close> are read with \<^verbatim>\<open>.get\<close>.\<close>

record vital =
  v_type :: "string entry"
  v_value :: "real entry"
  v_unit :: string
  v_timestamp :: int

text \<open>\<^verbatim>\<open>float(x)\<close> raises \<^verbatim>\<open>TypeError\<close> on \<^verbatim>\<open>None\<close>.\<close>

definition float :: "real option \<Rightarrow> py_error + real" where
  "float v = (case v of None \<Rightarrow> Inl TypeError | Some x \<Rightarrow> Inr x)"

fun get_latest_vital :: "vital list \<Rightarrow> string \<Rightarrow> real \<Rightarrow> py_error + real" where
  "get_latest_vital [] vital_type dflt = Inr dflt"
| "get_latest_vital (v # vitals_data) vital_type dflt =
     (if dict_get0 (v_type v) = Some vital_type
      then float (dict_get (v_value v) dflt)
      else get_latest_vital vitals_data vital_type dflt)"

text \<open>A value stored under a key of a dict literal: the key is present.\<close>

definition stored :: "'a option \<Rightarrow> 'a entry" where
  "stored v = (case v of None \<Rightarrow> PyNone | Some x \<Rightarrow> Val x)"

text \<open>\<^verbatim>\<open>s in xs\<close> raises \<^verbatim>\<open>TypeError\<close> when \<^verbatim>\<open>xs\<close> is \<^verbatim>\<open>None\<close>.\<close>

definition contains :: "string \<Rightarrow> string list option \<Rightarrow> py_error + bool" where
  "contains s xs = (case xs of None \<Rightarrow> Inl TypeError | Some l \<Rightarrow> Inr (s \<in> set l))"

definition assess_heart_risk ::
  "patient_data \<Rightarrow> vital list \<Rightarrow> py_error + (real \<times> real \<times> RiskFactor list)" where
  "assess_heart_risk patient vitals_data =
     ebind (get_latest_vital vitals_data ''bloodPressure'' 120) (\<lambda>bp.
     ebind (get_latest_vital vitals_data ''heartRate'' 150) (\<lambda>hr.
     Heart_predict (no_features\<lparr>
       age := stored (dict_get (p_age patient) 50),
       gender := stored (dict_get (p_gender patient) ''male''),
       restingBP := Val bp,
       cholesterol := Val 200,
       fastingBloodSugar := Val False,
       maxHeartRate := Val hr\<rparr>)))"

definition assess_diabetes_risk ::
  "patient_data \<Rightarrow> vital list \<Rightarrow> py_error + (real \<times> real \<times> RiskFactor list)" where
  "assess_diabetes_risk patient vitals_data =
     ebind (get_latest_vital vitals_data ''bloodGlucose'' 100) (\<lambda>glucose.
     ebind (get_latest_vital vitals_data ''bloodPressure'' 80) (\<lambda>bp.
     Diabetes_predict (no_features\<lparr>
       age := stored (dict_get (p_age patient) 40),
       gender := stored (dict_get (p_gender patient) ''male''),
       bmi := stored (dict_get (p_bmi patient) 25),
       glucoseLevel := Val glucose,
       bloodPressure := Val bp\<rparr>)))"

definition assess_stroke_risk ::
  "patient_data \<Rightarrow> vital list \<Rightarrow> py_error + (real \<times> real \<times> RiskFactor list)" where
  "assess_stroke_risk patient vitals_data =
     ebind (contains ''hypertension'' (dict_get (p_chronicConditions patient) [])) (\<lambda>ht.
     ebind (contains ''heart disease'' (dict_get (p_chronicConditions patient) [])) (\<lambda>hd.
     ebind (get_latest_vital vitals_data ''bloodGlucose'' 100) (\<lambda>glucose.
     Stroke_predict (no_features\<lparr>
       age := stored (dict_get (p_age patient) 50),
       gender := stored (dict_get (p_gender patient) ''male''),
       hypertension := Val ht,
       heartDisease := Val hd,
       avgGlucoseLevel := Val glucose,
       bmi := stored (dict_get (p_bmi patient) 25),
       smokingStatus := stored (dict_get (p_smokingStatus patient) ''never smoked'')\<rparr>))))"

definition identify_primary_concerns :: "real \<Rightarrow> real \<Rightarrow> real \<Rightarrow> string list" where
  "identify_primary_concerns heart_risk diabetes_risk stroke_risk =
     (let concerns = [] @ (if heart_risk > 0.6 then [''Elevated cardiovascular disease risk''] else []);
          concerns = concerns @ (if diabetes_risk > 0.6 then [''High diabetes risk''] else []);
          concerns = concerns @ (if stroke_risk > 0.6 then [''Increased stroke risk''] else []);
          concerns = concerns @ (if concerns = [] then [''Overall health status is good''] else [])
      in concerns)"

definition generate_recommendations ::
  "RiskLevel \<Rightarrow> real \<Rightarrow> real \<Rightarrow> real \<Rightarrow> Recommendation list" where
  "generate_recommendations risk_level heart diabetes stroke =
     (let recommendations = [] @ (if risk_level \<in> set [HIGH, CRITICAL] then
            [\<lparr>category = ''Immediate Action'', priority = ''high'',
              rec_description = ''Schedule consultation with healthcare provider'',
              actionItems = [''Book appointment with primary care physician'',
                             ''Bring recent test results and medication list'',
                             ''Monitor symptoms closely'']\<rparr>] else []);
          recommendations = recommendations @ (if heart > 0.5 then
            [\<lparr>category = ''Cardiovascular Health'', priority = ''medium'',
              rec_description = ''Improve heart health through lifestyle changes'',
              actionItems = [''Engage in 30 minutes of moderate exercise daily'',
                             ''Reduce sodium intake to less than 2,300mg per day'',
                             ''Monitor blood pressure regularly'',
                             ''Consider stress reduction techniques'']\<rparr>] else []);
          recommendations = recommendations @ (if diabetes > 0.5 then
            [\<lparr>category = ''Metabolic Health'', priority = ''medium'',
              rec_description = ''Reduce diabetes risk'',
              actionItems = [''Maintain healthy weight (BMI < 25)'',
                             ''Limit refined carbohydrates and sugars'',
                             ''Monitor blood glucose levels'',
                             ''Increase fiber intake'']\<rparr>] else [])
      in recommendations)"

record ComprehensiveAssessment =
  riskLevel :: RiskLevel
  riskScore :: real
  confidence :: real
  riskFactors :: "RiskFactor list"
  primaryConcerns :: "string list"
  recommendations :: "Recommendation list"

text \<open>
  The second half of \<^verbatim>\<open>predict_comprehensive_risk\<close>: what it computes from the three
  \<open>(score, confidence, factors)\<close> triples once the assessments have returned.
\<close>

definition combine_risks ::
  "Settings \<Rightarrow> real \<times> real \<times> RiskFactor list \<Rightarrow> real \<times> real \<times> RiskFactor list
     \<Rightarrow> real \<times> real \<times> RiskFactor list \<Rightarrow> ComprehensiveAssessment" where
  "combine_risks cfg h d s =
     (case h of (heart_risk, heart_conf, heart_factors) \<Rightarrow>
      case d of (diabetes_risk, diabetes_conf, diabetes_factors) \<Rightarrow>
      case s of (stroke_risk, stroke_conf, stroke_factors) \<Rightarrow>
      let overall_risk = heart_risk * 0.4 + diabetes_risk * 0.3 + stroke_risk * 0.3;
          overall_confidence = (heart_conf + diabetes_conf + stroke_conf) / 3;
          all_factors = heart_factors @ diabetes_factors @ stroke_factors;
          risk_level = determine_risk_level cfg overall_risk;
          recs = generate_recommendations risk_level heart_risk diabetes_risk stroke_risk
      in \<lparr>riskLevel = risk_level, riskScore = overall_risk, confidence = overall_confidence,
          riskFactors = all_factors,
          primaryConcerns = identify_primary_concerns heart_risk diabetes_risk stroke_risk,
          recommendations = recs\<rparr>)"

definition predict_comprehensive_risk ::
  "Settings \<Rightarrow> patient_data \<Rightarrow> vital list \<Rightarrow> py_error + ComprehensiveAssessment" where
  "predict_comprehensive_risk cfg patient vitals_data =
     ebind (assess_heart_risk patient vitals_data) (\<lambda>h.
     ebind (assess_diabetes_risk patient vitals_data) (\<lambda>d.
     ebind (assess_stroke_risk patient vitals_data) (\<lambda>s.
     Inr (combine_risks cfg h d s))))"

section \<open>IEEE double arithmetic\<close>

text \<open>
  A NumPy or Python float is an IEEE binary64 value: a finite number, an infinity or a NaN.
  The result of an arithmetic operation is the exact result rounded to the nearest double,
  ties to the even mantissa; it overflows to an infinity and underflows through the
  subnormal numbers to zero. Division by zero gives an infinity or, for \<open>0 / 0\<close>, a
  NaN, without raising. Every ordering comparison with a NaN is false. The two signed zeros
  are not distinguished: a zero divisor counts as \<open>+0\<close>.
\<close>

datatype npfloat = Fin real | PInf | NInf | NaN

definition pow2 :: "int \<Rightarrow> real" where
  "pow2 e = (if 0 \<le> e then 2 ^ nat e else 1 / 2 ^ nat (- e))"

text \<open>Rounding to the nearest integer, ties to even.\<close>

definition rne :: "real \<Rightarrow> int" where
  "rne q =
     (let f = \<lfloor>q\<rfloor>; d = q - of_int f in
      if d < 1 / 2 then f else if d > 1 / 2 then f + 1 else if even f then f else f + 1)"

text \<open>
  Rounding of a real to binary64: 53 significant bits, the least exponent of a unit in the
  last place is \<open>-1074\<close>, and a result of magnitude \<open>2 ^ 1024\<close> or more is an infinity.
\<close>

definition round64 :: "real \<Rightarrow> npfloat" where
  "round64 x =
     (if x = 0 then Fin 0
      else let e = max (\<lfloor>log 2 \<bar>x\<bar>\<rfloor> - 52) (- 1074);
               r = of_int (rne (x / pow2 e)) * pow2 e
           in if \<bar>r\<bar> \<ge> pow2 1024 then (if x > 0 then PInf else NInf) else Fin r)"

definition inf_of_sign :: "real \<Rightarrow> npfloat" where
  "inf_of_sign s = (if s > 0 then PInf else if s < 0 then NInf else NaN)"

fun fneg :: "npfloat \<Rightarrow> npfloat" where
  "fneg (Fin x) = Fin (- x)"
| "fneg PInf = NInf"
| "fneg NInf = PInf"
| "fneg NaN = NaN"

fun np_abs :: "npfloat \<Rightarrow> npfloat" where
  "np_abs (Fin x) = Fin \<bar>x\<bar>"
| "np_abs PInf = PInf"
| "np_abs NInf = PInf"
| "np_abs NaN = NaN"

fun fadd :: "npfloat \<Rightarrow> npfloat \<Rightarrow> npfloat" where
  "fadd (Fin x) (Fin y) = round64 (x + y)"
| "fadd NaN b = NaN"
| "fadd a NaN = NaN"
| "fadd PInf NInf = NaN"
| "fadd NInf PInf = NaN"
| "fadd PInf b = PInf"
| "fadd a PInf = PInf"
| "fadd NInf b = NInf"
| "fadd a NInf = NInf"

definition fsub :: "npfloat \<Rightarrow> npfloat \<Rightarrow> npfloat" where
  "fsub a b = fadd a (fneg b)"

fun fmul :: "npfloat \<Rightarrow> npfloat \<Rightarrow> npfloat" where
  "fmul (Fin x) (Fin y) = round64 (x * y)"
| "fmul NaN b = NaN"
| "fmul a NaN = NaN"
| "fmul (Fin x) PInf = inf_of_sign x"
| "fmul (Fin x) NInf = inf_of_sign (- x)"
| "fmul PInf (Fin y) = inf_of_sign y"
| "fmul NInf (Fin y) = inf_of_sign (- y)"
| "fmul PInf PInf = PInf"
| "fmul PInf NInf = NInf"
| "fmul NInf PInf = NInf"
| "fmul NInf NInf = PInf"

fun fdiv :: "npfloat \<Rightarrow> npfloat \<Rightarrow> npfloat" where
  "fdiv (Fin x) (Fin y) = (if y = 0 then inf_of_sign x else round64 (x / y))"
| "fdiv NaN b = NaN"
| "fdiv a NaN = NaN"
| "fdiv (Fin x) PInf = Fin 0"
| "fdiv (Fin x) NInf = Fin 0"
| "fdiv PInf (Fin y) = (if y < 0 then NInf else PInf)"
| "fdiv NInf (Fin y) = (if y < 0 then PInf else NInf)"
| "fdiv PInf b = NaN"
| "fdiv NInf b = NaN"

fun fsqrt :: "npfloat \<Rightarrow> npfloat" where
  "fsqrt (Fin x) = (if x < 0 then NaN else round64 (sqrt x))"
| "fsqrt PInf = PInf"
| "fsqrt NInf = NaN"
| "fsqrt NaN = NaN"

fun np_lt :: "npfloat \<Rightarrow> npfloat \<Rightarrow> bool" where
  "np_lt (Fin x) (Fin y) = (x < y)"
| "np_lt NaN b = False"
| "np_lt a NaN = False"
| "np_lt a NInf = False"
| "np_lt PInf b = False"
| "np_lt NInf b = True"
| "np_lt a PInf = True"

definition np_gt :: "npfloat \<Rightarrow> npfloat \<Rightarrow> bool" where
  "np_gt a b = np_lt b a"

definition np_ge :: "npfloat \<Rightarrow> npfloat \<Rightarrow> bool" where
  "np_ge a b = (np_gt a b \<or> (a = b \<and> a \<noteq> NaN))"

definition np_ne :: "npfloat \<Rightarrow> npfloat \<Rightarrow> bool" where
  "np_ne a b = (a \<noteq> b \<or> a = NaN)"

text \<open>The doubles nearest to the decimal literals 0.05, 0.2 and 0.3 of the source.\<close>

definition d_0_05 :: real where
  "d_0_05 = 3602879701896397 / 2 ^ 56"

definition d_0_2 :: real where
  "d_0_2 = 3602879701896397 / 2 ^ 54"

definition d_0_3 :: real where
  "d_0_3 = 5404319552844595 / 2 ^ 54"

section \<open>NumPy summaries\<close>

text \<open>
  The summaries are called on non-empty series only (\<^verbatim>\<open>analyze_trend\<close> returns early
  on an empty one). A sum adds its elements from left to right, each partial sum rounded;
  NumPy adds an array of eight or more elements in blocks, which may round differently.
\<close>

fun np_sum :: "npfloat list \<Rightarrow> npfloat" where
  "np_sum [] = Fin 0"
| "np_sum (x # xs) = foldl fadd x xs"

definition np_mean :: "npfloat list \<Rightarrow> npfloat" where
  "np_mean xs = fdiv (np_sum xs) (Fin (real (length xs)))"

definition np_var :: "npfloat list \<Rightarrow> npfloat" where
  "np_var xs =
     (let arrmean = np_mean xs;
          x = map (\<lambda>v. fsub v arrmean) xs;
          x = map (\<lambda>v. fmul v v) x
      in fdiv (np_sum x) (Fin (real (length xs))))"

definition np_std :: "npfloat list \<Rightarrow> npfloat" where
  "np_std xs = fsqrt (np_var xs)"

definition np_min :: "real list \<Rightarrow> real" where
  "np_min xs = fold min (tl xs) (hd xs)"

definition np_max :: "real list \<Rightarrow> real" where
  "np_max xs = fold max (tl xs) (hd xs)"

definition np_median :: "real list \<Rightarrow> npfloat" where
  "np_median xs =
     (let s = sort xs; n = length xs in
      if odd n then Fin (s ! (n div 2))
      else np_mean [Fin (s ! (n div 2 - 1)), Fin (s ! (n div 2))])"

text \<open>
  \<^verbatim>\<open>np.percentile\<close> with its default linear interpolation between order statistics:
  the position \<open>(n - 1) * (q / 100)\<close>, the two neighbouring order statistics, and
  NumPy's interpolation between them, which works from the upper neighbour once the
  fraction is at least one half.
\<close>

definition np_lerp :: "npfloat \<Rightarrow> npfloat \<Rightarrow> npfloat \<Rightarrow> npfloat" where
  "np_lerp a b t =
     (let diff_b_a = fsub b a in
      if np_ge t (Fin (1 / 2)) then fsub b (fmul diff_b_a (fsub (Fin 1) t))
      else fadd a (fmul diff_b_a t))"

definition np_percentile :: "real list \<Rightarrow> real \<Rightarrow> npfloat" where
  "np_percentile xs q =
     (let s = sort xs; n = length xs in
      case fmul (Fin (real (n - 1))) (fdiv (Fin q) (Fin 100)) of
        Fin v \<Rightarrow>
          (if real (n - 1) \<le> v then Fin (s ! (n - 1))
           else if v < 0 then Fin (s ! 0)
           else let previous = nat \<lfloor>v\<rfloor>;
                    gamma = fsub (Fin v) (Fin (real previous))
                in np_lerp (Fin (s ! previous)) (Fin (s ! (previous + 1))) gamma)
      | _ \<Rightarrow> NaN)"

section \<open>Linear regression\<close>

text \<open>
  \<^verbatim>\<open>scipy.stats.linregress\<close> is a library function, not part of this repository.
  The analyzer takes it as a parameter: a function from the two series to the slope, the
  intercept, the correlation coefficient and the p-value it reports, each a double.
\<close>

record LinregressResult =
  slope :: npfloat
  intercept :: npfloat
  rvalue :: npfloat
  pvalue :: npfloat

type_synonym linregress_fun = "real list \<Rightarrow> real list \<Rightarrow> LinregressResult"

text \<open>\<^verbatim>\<open>np.arange(n)\<close>\<close>

definition arange :: "nat \<Rightarrow> real list" where
  "arange n = map real [0..<n]"

subsection \<open>The library routine in exact arithmetic\<close>








section \<open>VitalsAnalyzer\<close>

text \<open>A row of the data frame: the two columns the analyzer reads; the value is a finite double.\<close>

record reading =
  r_timestamp :: int
  r_value :: real

definition calculate_statistics :: "real list \<Rightarrow> (string \<rightharpoonup> npfloat)" where
  "calculate_statistics values = map_of
     [(''mean'', np_mean (map Fin values)),
      (''median'', np_median values),
      (''std'', np_std (map Fin values)),
      (''min'', Fin (np_min values)),
      (''max'', Fin (np_max values)),
      (''q25'', np_percentile values 25),
      (''q75'', np_percentile values 75),
      (''count'', Fin (real (length values))),
      (''variance'', np_var (map Fin values)),
      (''coefficient_of_variation'',
         (if np_ne (np_mean (map Fin values)) (Fin 0)
          then fmul (fdiv (np_std (map Fin values)) (np_mean (map Fin values))) (Fin 100)
          else Fin 0))]"

definition determine_trend :: "linregress_fun \<Rightarrow> real list \<Rightarrow> string" where
  "determine_trend linregress values =
     (if length values < 3 then ''insufficient_data''
      else let lr = linregress (arange (length values)) values in
        if np_gt (pvalue lr) (Fin d_0_05) then ''stable''
        else if np_gt (slope lr) (Fin 0) then ''increasing''
        else if np_lt (slope lr) (Fin 0) then ''decreasing''
        else ''stable'')"

datatype reason = ZScoreRule npfloat | OutsideIQR npfloat npfloat

record anomaly =
  a_timestamp :: int
  a_value :: real
  a_severity :: string
  a_reason :: "reason list"
  a_deviation :: npfloat

text \<open>
  The body of the loop over the rows: the row and its z-score give at most one anomaly.
\<close>

definition anomaly_of_row :: "npfloat \<Rightarrow> npfloat \<Rightarrow> reading \<times> npfloat \<Rightarrow> anomaly list" where
  "anomaly_of_row lower_bound upper_bound rz =
     (case rz of (row, z_score) \<Rightarrow>
      let v = r_value row;
          reason = [] @ (if np_gt z_score (Fin 3) then [ZScoreRule z_score] else []);
          reason = reason @ (if np_lt (Fin v) lower_bound \<or> np_gt (Fin v) upper_bound
                             then [OutsideIQR lower_bound upper_bound] else []);
          is_anomaly = np_gt z_score (Fin 3) \<or> np_lt (Fin v) lower_bound \<or> np_gt (Fin v) upper_bound
      in if is_anomaly
         then [\<lparr>a_timestamp = r_timestamp row, a_value = v,
                a_severity = (if np_gt z_score (Fin 4) then ''high'' else ''medium''),
                a_reason = reason, a_deviation = z_score\<rparr>]
         else [])"

definition detect_anomalies :: "reading list \<Rightarrow> anomaly list" where
  "detect_anomalies df =
     (let values = map r_value df;
          mean = np_mean (map Fin values);
          std = np_std (map Fin values);
          z_scores = map (\<lambda>v. np_abs (fdiv (fsub (Fin v) mean) std)) values;
          q1 = np_percentile values 25;
          q3 = np_percentile values 75;
          iqr = fsub q3 q1;
          lower_bound = fsub q1 (fmul (Fin 1.5) iqr);
          upper_bound = fadd q3 (fmul (Fin 1.5) iqr)
      in concat (map (anomaly_of_row lower_bound upper_bound) (zip df z_scores)))"

record forecast_point =
  f_period :: nat
  f_value :: npfloat
  f_confidence_lower :: npfloat
  f_confidence_upper :: npfloat

definition generate_forecast :: "linregress_fun \<Rightarrow> real list \<Rightarrow> nat \<Rightarrow> forecast_point list" where
  "generate_forecast linregress values periods =
     (if length values < 3 then []
      else let window = min 7 (length values);
               ma = np_mean (map Fin (drop (length values - window) values));
               sl = slope (linregress (arange (length values)) values)
           in map (\<lambda>i. let forecast_value = fadd ma (fmul sl (Fin (real i))) in
                    \<lparr>f_period = i, f_value = forecast_value,
                     f_confidence_lower = fsub forecast_value (np_std (map Fin values)),
                     f_confidence_upper = fadd forecast_value (np_std (map Fin values))\<rparr>)
                [1..<periods + 1])"

record normal_range =
  nr_min :: real
  nr_max :: real
  nr_unit :: string

text \<open>The unit of the temperature range is a degree sign followed by C in the source.\<close>

definition normal_ranges :: "string \<rightharpoonup> normal_range" where
  "normal_ranges = map_of
     [(''heartRate'', \<lparr>nr_min = 60, nr_max = 100, nr_unit = ''bpm''\<rparr>),
      (''bloodPressureSystolic'', \<lparr>nr_min = 90, nr_max = 120, nr_unit = ''mmHg''\<rparr>),
      (''bloodPressureDiastolic'', \<lparr>nr_min = 60, nr_max = 80, nr_unit = ''mmHg''\<rparr>),
      (''oxygenSaturation'', \<lparr>nr_min = 95, nr_max = 100, nr_unit = ''%''\<rparr>),
      (''temperature'', \<lparr>nr_min = 36.5, nr_max = 37.5, nr_unit = ''C''\<rparr>),
      (''respiratoryRate'', \<lparr>nr_min = 12, nr_max = 20, nr_unit = ''brpm''\<rparr>),
      (''bloodGlucose'', \<lparr>nr_min = 70, nr_max = 140, nr_unit = ''mg/dL''\<rparr>)]"

record vital_risk =
  vr_riskLevel :: string
  vr_message :: string
  vr_normalRange :: "normal_range option"
  vr_averageValue :: "npfloat option"
  vr_deviation :: "npfloat option"

text \<open>Decimal digits of a natural number, as \<^verbatim>\<open>str\<close> prints it.\<close>

fun str_nat :: "nat \<Rightarrow> string" where
  "str_nat n =
     (if n < 10 then [char_of (48 + n)]
      else str_nat (n div 10) @ [char_of (48 + n mod 10)])"

text \<open>
  The percent deviation of the mean below the minimum and above the maximum of a range, as
  the source computes them with Python floats.
\<close>

definition deviation_below :: "normal_range \<Rightarrow> npfloat \<Rightarrow> npfloat" where
  "deviation_below rng mean_value =
     fmul (fdiv (fsub (Fin (nr_min rng)) mean_value) (Fin (nr_min rng))) (Fin 100)"

definition deviation_above :: "normal_range \<Rightarrow> npfloat \<Rightarrow> npfloat" where
  "deviation_above rng mean_value =
     fmul (fdiv (fsub mean_value (Fin (nr_max rng))) (Fin (nr_max rng))) (Fin 100)"

definition assess_vital_risk ::
  "string \<Rightarrow> (string \<rightharpoonup> npfloat) \<Rightarrow> anomaly list \<Rightarrow> string \<Rightarrow> py_error + vital_risk" where
  "assess_vital_risk vital_type stats anomalies trend =
     (case normal_ranges vital_type of
        None \<Rightarrow> Inr \<lparr>vr_riskLevel = ''unknown'', vr_message = ''Unknown vital type'',
                     vr_normalRange = None, vr_averageValue = None, vr_deviation = None\<rparr>
      | Some rng \<Rightarrow>
         (case stats ''mean'' of
            None \<Rightarrow> Inl KeyError
          | Some mean_value \<Rightarrow>
             let (risk_level, message) =
                   (if np_lt mean_value (Fin (nr_min rng)) then
                      (if np_gt (deviation_below rng mean_value) (Fin 20) then
                         (''high'', ''Average '' @ vital_type @ '' significantly below normal'')
                       else if np_gt (deviation_below rng mean_value) (Fin 10) then
                         (''medium'', ''Average '' @ vital_type @ '' below normal'')
                       else (''low'', ''Vital signs within normal range''))
                    else if np_gt mean_value (Fin (nr_max rng)) then
                      (if np_gt (deviation_above rng mean_value) (Fin 20) then
                         (''high'', ''Average '' @ vital_type @ '' significantly above normal'')
                       else if np_gt (deviation_above rng mean_value) (Fin 10) then
                         (''medium'', ''Average '' @ vital_type @ '' above normal'')
                       else (''low'', ''Vital signs within normal range''))
                    else (''low'', ''Vital signs within normal range''));
                 detected = ''; '' @ str_nat (length anomalies) @ '' anomalies detected'';
                 (risk_level, message) =
                   (if length anomalies > 5 then (''high'', message @ detected)
                    else if length anomalies > 2 then
                      ((if risk_level = ''low'' then ''medium'' else risk_level), message @ detected)
                    else (risk_level, message));
                 message =
                   (if trend = ''increasing'' \<and> np_gt mean_value (Fin (nr_max rng))
                      then message @ ''; increasing trend''
                    else if trend = ''decreasing'' \<and> np_lt mean_value (Fin (nr_min rng))
                      then message @ ''; decreasing trend''
                    else message)
             in Inr \<lparr>vr_riskLevel = risk_level, vr_message = message,
                     vr_normalRange = Some rng, vr_averageValue = Some mean_value,
                     vr_deviation = Some (np_abs (fsub mean_value
                        (fdiv (fadd (Fin (nr_min rng)) (Fin (nr_max rng))) (Fin 2))))\<rparr>))"

record trend_analysis =
  statistics :: "string \<rightharpoonup> npfloat"
  trend :: string
  anomalies :: "anomaly list"
  forecast :: "forecast_point list"
  riskAssessment :: vital_risk

definition empty_analysis :: trend_analysis where
  "empty_analysis =
     \<lparr>statistics = Map.empty, trend = ''no_data'', anomalies = [], forecast = [],
      riskAssessment = \<lparr>vr_riskLevel = ''unknown'', vr_message = ''No data available'',
        vr_normalRange = None, vr_averageValue = None, vr_deviation = None\<rparr>\<rparr>"

text \<open>
  \<^verbatim>\<open>analyze_trend\<close>: the rows are sorted by timestamp (rows with equal timestamps keep
  their order here); the parameter \<^verbatim>\<open>days\<close> is not used by the source.
\<close>

definition analyze_trend ::
  "linregress_fun \<Rightarrow> reading list \<Rightarrow> string \<Rightarrow> nat \<Rightarrow> py_error + trend_analysis" where
  "analyze_trend linregress vitals vital_type days =
     (if vitals = [] then Inr empty_analysis
      else let df = sort_key r_timestamp vitals;
               stats = calculate_statistics (map r_value df);
               tr = determine_trend linregress (map r_value df);
               anoms = detect_anomalies df;
               fc = generate_forecast linregress (map r_value df) 3
           in ebind (assess_vital_risk vital_type stats anoms tr) (\<lambda>risk_assessment.
              Inr \<lparr>statistics = stats, trend = tr, anomalies = anoms, forecast = fc,
                   riskAssessment = risk_assessment\<rparr>))"

section \<open>AnomalyDetector\<close>

record 'ts sudden_change =
  sc_timestamp :: 'ts
  sc_previous_value :: real
  sc_current_value :: real
  sc_change_percent :: npfloat
  sc_severity :: string

text \<open>
  The relative change at index \<open>i\<close> as the source computes it:
  \<^verbatim>\<open>abs(values[i] - values[i - 1]) / values[i - 1]\<close> on doubles.
\<close>

definition pct_change_at :: "real list \<Rightarrow> nat \<Rightarrow> npfloat" where
  "pct_change_at values i =
     fdiv (np_abs (fsub (Fin (values ! i)) (Fin (values ! (i - 1))))) (Fin (values ! (i - 1)))"

text \<open>
  The loop of \<^verbatim>\<open>detect_sudden_changes\<close> over the indices still to visit; reading
  \<^verbatim>\<open>timestamps[i]\<close> beyond the end of the array raises \<^verbatim>\<open>IndexError\<close>.
\<close>

fun sudden_changes_loop ::
  "nat list \<Rightarrow> real list \<Rightarrow> 'ts list \<Rightarrow> real \<Rightarrow> 'ts sudden_change list
     \<Rightarrow> py_error + 'ts sudden_change list" where
  "sudden_changes_loop [] values timestamps threshold changes = Inr changes"
| "sudden_changes_loop (i # is) values timestamps threshold changes =
     (let pct_change = pct_change_at values i in
      if np_gt pct_change (Fin threshold) then
        (if i < length timestamps then
           sudden_changes_loop is values timestamps threshold
             (changes @ [\<lparr>sc_timestamp = timestamps ! i,
                          sc_previous_value = values ! (i - 1),
                          sc_current_value = values ! i,
                          sc_change_percent = fmul pct_change (Fin 100),
                          sc_severity = (if np_gt pct_change (Fin d_0_3) then ''high'' else ''medium'')\<rparr>])
         else Inl IndexError)
      else sudden_changes_loop is values timestamps threshold changes)"

definition detect_sudden_changes ::
  "real list \<Rightarrow> 'ts list \<Rightarrow> real \<Rightarrow> py_error + 'ts sudden_change list" where
  "detect_sudden_changes values timestamps threshold =
     sudden_changes_loop [1..<length values] values timestamps threshold []"

section \<open>Reference definitions and example inputs\<close>

text \<open>
  What the specification asks of the aggregator's vital lookup, in its own words: the value
  of the most recent reading of the given type (the one with the greatest timestamp), and
  the default when the list holds no reading of that type.
\<close>

definition spec_most_recent_value :: "vital list \<Rightarrow> string \<Rightarrow> real \<Rightarrow> real" where
  "spec_most_recent_value vitals_data vital_type dflt =
     (case filter (\<lambda>v. v_type v = Val vital_type) vitals_data of
        [] \<Rightarrow> dflt
      | m # ms \<Rightarrow>
          (case v_value (fold (\<lambda>v best. if v_timestamp best \<le> v_timestamp v then v else best) ms m) of
             Val x \<Rightarrow> x | _ \<Rightarrow> dflt))"

text \<open>Two glucose readings in chronological order.\<close>

definition glucose_history :: "vital list" where
  "glucose_history =
     [\<lparr>v_type = Val ''bloodGlucose'', v_value = Val 90, v_unit = ''mg/dL'', v_timestamp = 1\<rparr>,
      \<lparr>v_type = Val ''bloodGlucose'', v_value = Val 200, v_unit = ''mg/dL'', v_timestamp = 2\<rparr>]"

text \<open>A patient profile as the API hands it over when the request omits the optional \<^verbatim>\<open>bmi\<close>.\<close>

definition patient_without_bmi :: patient_data where
  "patient_without_bmi = \<lparr>p_age = Val 40, p_gender = Val ''male'', p_bmi = PyNone,
     p_chronicConditions = Val [], p_smokingStatus = PyNone\<rparr>"

definition stroke_patient :: patient_data where
  "stroke_patient = \<lparr>p_age = Val 70, p_gender = Val ''male'', p_bmi = Val 22,
     p_chronicConditions = Val [''hypertension'', ''heart disease''],
     p_smokingStatus = Val ''smokes''\<rparr>"

definition obese_patient :: patient_data where
  "obese_patient = \<lparr>p_age = Val 50, p_gender = Val ''female'', p_bmi = Val 31,
     p_chronicConditions = Val [], p_smokingStatus = PyNone\<rparr>"

definition obese_vitals :: "vital list" where
  "obese_vitals =
     [\<lparr>v_type = Val ''bloodPressure'', v_value = Val 145, v_unit = ''mmHg'', v_timestamp = 1\<rparr>,
      \<lparr>v_type = Val ''bloodGlucose'', v_value = Val 130, v_unit = ''mg/dL'', v_timestamp = 2\<rparr>]"

text \<open>What the aggregator returns for that patient.\<close>

definition obese_assessment :: ComprehensiveAssessment where
  "obese_assessment =
     combine_risks settings
       (0.35, 0.85, [\<lparr>factor = ''High Blood Pressure'', impact = 0.3,
          description = Interp ''Blood pressure '' 145 '' mmHg is elevated''\<rparr>])
       (1, 0.82,
         [\<lparr>factor = ''Elevated BMI'', impact = 0.3,
            description = Interp ''BMI of '' 31 '' increases diabetes risk''\<rparr>,
          \<lparr>factor = ''Elevated Glucose'', impact = 0.3,
            description = Interp ''Fasting glucose '' 130 '' mg/dL is elevated''\<rparr>])
       (0.25, 0.80, [])"


text \<open>
  The entry the specification asks for at a flagged index \<open>i\<close>: the change in percent is
  the ratio times 100, the severity is \<open>high\<close> when the ratio exceeds 0.3.
\<close>

definition flagged_entry :: "real list \<Rightarrow> 'ts list \<Rightarrow> nat \<Rightarrow> 'ts sudden_change" where
  "flagged_entry values timestamps i =
     \<lparr>sc_timestamp = timestamps ! i,
      sc_previous_value = values ! (i - 1),
      sc_current_value = values ! i,
      sc_change_percent = fmul (pct_change_at values i) (Fin 100),
      sc_severity = (if np_gt (pct_change_at values i) (Fin d_0_3) then ''high'' else ''medium'')\<rparr>"



definition d_1_8 :: real where
  "d_1_8 = 8106479329266893 / 2 ^ 52"

definition d_3e_171 :: real where
  "d_3e_171 = 3263311827866217 / 2 ^ 618"

text \<open>Three readings of the same value: 98, and \<open>3e-171\<close>.\<close>

definition steady_readings :: "reading list" where
  "steady_readings =
     [\<lparr>r_timestamp = 1, r_value = 98\<rparr>, \<lparr>r_timestamp = 2, r_value = 98\<rparr>,
      \<lparr>r_timestamp = 3, r_value = 98\<rparr>]"

definition tiny_readings :: "reading list" where
  "tiny_readings =
     [\<lparr>r_timestamp = 1, r_value = d_3e_171\<rparr>, \<lparr>r_timestamp = 2, r_value = d_3e_171\<rparr>,
      \<lparr>r_timestamp = 3, r_value = d_3e_171\<rparr>]"



section \<open>Basic facts about the error plumbing\<close>

lemma ebind_Inr: "ebind m f = Inr y \<longleftrightarrow> (\<exists>x. m = Inr x \<and> f x = Inr y)"
  by (cases m) (simp_all add: ebind_def)

lemma if_nonneg: "0 \<le> a \<Longrightarrow> 0 \<le> b \<Longrightarrow> (0::real) \<le> (if c then a else b)"
  by simp

lemmas scorer_defs =
  Heart_predict_def Heart_calculate_risk_score_def Heart_identify_risk_factors_def
  Diabetes_predict_def Diabetes_calculate_risk_score_def Diabetes_identify_risk_factors_def
  Stroke_predict_def Stroke_calculate_risk_score_def Stroke_identify_risk_factors_def
  ebind_def num_def dict_get_def dict_get0_def truthy_def smoker_def no_features_def

lemmas aggregator_defs =
  assess_heart_risk_def assess_diabetes_risk_def assess_stroke_risk_def
  float_def stored_def contains_def

section \<open>Risk level thresholds\<close>

text \<open>
  Claim C8. With the configured thresholds 0.3, 0.6 and 0.8, a score in [0,1] is LOW below
  0.3, MEDIUM from 0.3 up to but excluding 0.6, HIGH from 0.6 up to but excluding 0.8, and
  CRITICAL from 0.8 on: each boundary value belongs to the higher band.
\<close>

theorem determine_risk_level_bands:
  assumes "0 \<le> s" and "s \<le> 1"
  shows "(s < 0.3 \<longrightarrow> determine_risk_level settings s = LOW)
       \<and> (0.3 \<le> s \<and> s < 0.6 \<longrightarrow> determine_risk_level settings s = MEDIUM)
       \<and> (0.6 \<le> s \<and> s < 0.8 \<longrightarrow> determine_risk_level settings s = HIGH)
       \<and> (0.8 \<le> s \<longrightarrow> determine_risk_level settings s = CRITICAL)"
  by (simp add: determine_risk_level_def settings_def)

theorem determine_risk_level_bands_witness:
  "(0::real) \<le> 0.3 \<and> (0.3::real) \<le> 1
   \<and> determine_risk_level settings 0.29 = LOW
   \<and> determine_risk_level settings 0.3 = MEDIUM
   \<and> determine_risk_level settings 0.6 = HIGH
   \<and> determine_risk_level settings 0.8 = CRITICAL"
  using determine_risk_level_bands [of "0.29"] determine_risk_level_bands [of "0.3"]
    determine_risk_level_bands [of "0.6"] determine_risk_level_bands [of "0.8"]
  by simp

section \<open>Condition scorers: ranges and totality\<close>

lemma Heart_score_range:
  "Heart_calculate_risk_score data = Inr s \<Longrightarrow> 0 \<le> s \<and> s \<le> 1"
  unfolding Heart_calculate_risk_score_def ebind_Inr Let_def
  by (elim exE conjE) (clarsimp split del: if_split, intro add_nonneg_nonneg if_nonneg; simp)

lemma Diabetes_score_range:
  "Diabetes_calculate_risk_score data = Inr s \<Longrightarrow> 0 \<le> s \<and> s \<le> 1"
  unfolding Diabetes_calculate_risk_score_def ebind_Inr Let_def
  by (elim exE conjE) (clarsimp split del: if_split, intro add_nonneg_nonneg if_nonneg; simp)

lemma Stroke_score_range:
  "Stroke_calculate_risk_score data = Inr s \<Longrightarrow> 0 \<le> s \<and> s \<le> 1"
  unfolding Stroke_calculate_risk_score_def ebind_Inr Let_def
  by (elim exE conjE) (clarsimp split del: if_split, intro add_nonneg_nonneg if_nonneg; simp)

lemma Heart_factors_range:
  "Heart_identify_risk_factors data rs = Inr fs \<Longrightarrow> f \<in> set fs
     \<Longrightarrow> 0 \<le> impact f \<and> impact f \<le> 1"
  unfolding Heart_identify_risk_factors_def ebind_Inr Let_def
  by (elim exE conjE) (auto split: if_splits)

lemma Diabetes_factors_range:
  "Diabetes_identify_risk_factors data rs = Inr fs \<Longrightarrow> f \<in> set fs
     \<Longrightarrow> 0 \<le> impact f \<and> impact f \<le> 1"
  unfolding Diabetes_identify_risk_factors_def ebind_Inr Let_def
  by (elim exE conjE) (auto split: if_splits)

lemma Stroke_factors_range:
  "Stroke_identify_risk_factors data rs = Inr fs \<Longrightarrow> f \<in> set fs
     \<Longrightarrow> 0 \<le> impact f \<and> impact f \<le> 1"
  unfolding Stroke_identify_risk_factors_def Let_def
  by (auto split: if_splits)

text \<open>
  Whenever a scorer returns, its score, its confidence and every impact lie in [0,1].
\<close>

lemma Heart_predict_range:
  assumes "Heart_predict data = Inr (s, c, fs)"
  shows "0 \<le> s \<and> s \<le> 1 \<and> c = 0.85 \<and> (\<forall>f \<in> set fs. 0 \<le> impact f \<and> impact f \<le> 1)"
  using assms Heart_score_range Heart_factors_range
  by (auto simp: Heart_predict_def ebind_Inr)

lemma Diabetes_predict_range:
  assumes "Diabetes_predict data = Inr (s, c, fs)"
  shows "0 \<le> s \<and> s \<le> 1 \<and> c = 0.82 \<and> (\<forall>f \<in> set fs. 0 \<le> impact f \<and> impact f \<le> 1)"
  using assms Diabetes_score_range Diabetes_factors_range
  by (auto simp: Diabetes_predict_def ebind_Inr)

lemma Stroke_predict_range:
  assumes "Stroke_predict data = Inr (s, c, fs)"
  shows "0 \<le> s \<and> s \<le> 1 \<and> c = 0.80 \<and> (\<forall>f \<in> set fs. 0 \<le> impact f \<and> impact f \<le> 1)"
  using assms Stroke_score_range Stroke_factors_range
  by (auto simp: Stroke_predict_def ebind_Inr)

text \<open>
  Claim C3. Every feature map, also one with missing values, should give a score, a
  confidence and impacts in [0,1]. A feature that is present with the value \<^verbatim>\<open>None\<close>
  is not replaced by its default: \<^verbatim>\<open>data.get("bmi", 25)\<close> returns \<^verbatim>\<open>None\<close> and the
  comparison \<^verbatim>\<open>bmi > 30\<close> raises. The aggregator builds exactly such a map for a patient
  whose optional \<^verbatim>\<open>bmi\<close> was omitted, so the metabolic and cerebrovascular scorers return
  no score at all there.
\<close>

theorem scorer_raises_on_None_bmi:
  "Diabetes_predict (no_features\<lparr>age := Val 40, gender := Val ''male'', bmi := PyNone,
       glucoseLevel := Val 100, bloodPressure := Val 80\<rparr>) = Inl TypeError
   \<and> Stroke_predict (no_features\<lparr>age := Val 40, bmi := PyNone\<rparr>) = Inl TypeError
   \<and> assess_diabetes_risk patient_without_bmi [] = Inl TypeError
   \<and> assess_stroke_risk patient_without_bmi [] = Inl TypeError"
  by (simp add: patient_without_bmi_def aggregator_defs scorer_defs)

section \<open>The aggregator\<close>

subsection \<open>Vital lookup\<close>

text \<open>The lookup returns the first reading of the requested type, in list order.\<close>

lemma get_latest_vital_no_match:
  "\<forall>v \<in> set vitals_data. dict_get0 (v_type v) \<noteq> Some vital_type
     \<Longrightarrow> get_latest_vital vitals_data vital_type dflt = Inr dflt"
  by (induction vitals_data) simp_all

lemma get_latest_vital_first_match:
  assumes "\<forall>u \<in> set pre. dict_get0 (v_type u) \<noteq> Some vital_type"
    and "dict_get0 (v_type v) = Some vital_type"
  shows "get_latest_vital (pre @ v # post) vital_type dflt = float (dict_get (v_value v) dflt)"
  using assms by (induction pre) simp_all

text \<open>
  On a list given newest first (strictly descending timestamps) whose readings carry their
  values, the first match is the most recent reading of the type.
\<close>

lemma fold_keeps_newest:
  "\<forall>u \<in> set ms. v_timestamp u < v_timestamp m
     \<Longrightarrow> fold (\<lambda>v best. if v_timestamp best \<le> v_timestamp v then v else best) ms m = m"
  by (induction ms) simp_all

lemma get_latest_vital_newest_first:
  assumes "sorted_wrt (>) (map v_timestamp vitals_data)"
    and "\<forall>v \<in> set vitals_data. v_value v \<noteq> PyNone"
  shows "get_latest_vital vitals_data vital_type dflt =
           Inr (spec_most_recent_value vitals_data vital_type dflt)"
  using assms
proof (induction vitals_data)
  case Nil
  then show ?case by (simp add: spec_most_recent_value_def)
next
  case (Cons v vs)
  show ?case
  proof (cases "v_type v = Val vital_type")
    case True
    have "\<forall>u \<in> set (filter (\<lambda>v. v_type v = Val vital_type) vs). v_timestamp u < v_timestamp v"
      using Cons.prems(1) by auto
    then have "fold (\<lambda>v best. if v_timestamp best \<le> v_timestamp v then v else best)
                 (filter (\<lambda>v. v_type v = Val vital_type) vs) v = v"
      by (rule fold_keeps_newest)
    then show ?thesis
      using True Cons.prems(2)
      by (cases "v_value v")
         (simp_all add: spec_most_recent_value_def dict_get0_def dict_get_def float_def)
  next
    case False
    then have "dict_get0 (v_type v) \<noteq> Some vital_type"
      by (cases "v_type v") (simp_all add: dict_get0_def)
    moreover have "spec_most_recent_value (v # vs) vital_type dflt =
                   spec_most_recent_value vs vital_type dflt"
      using False by (simp add: spec_most_recent_value_def)
    ultimately show ?thesis using Cons by simp
  qed
qed

text \<open>
  Claim C1. On a list sorted by timestamp the derived feature value should be the value of
  the most recent reading of the type (and the default when there is none). The lookup,
  documented as extracting the latest value, never looks at a timestamp: on two glucose
  readings in chronological order it returns the older value 90, where the most recent
  one is 200. It returns 200 only when the same readings come newest first. The default
  is returned when no reading has the type.
\<close>

theorem get_latest_vital_returns_oldest:
  "sorted (map v_timestamp glucose_history)
   \<and> get_latest_vital glucose_history ''bloodGlucose'' 100 = Inr 90
   \<and> spec_most_recent_value glucose_history ''bloodGlucose'' 100 = 200
   \<and> get_latest_vital (rev glucose_history) ''bloodGlucose'' 100 = Inr 200
   \<and> get_latest_vital glucose_history ''heartRate'' 150 = Inr 150"
proof (intro conjI)
  show "sorted (map v_timestamp glucose_history)"
    by (simp add: glucose_history_def)
  show "get_latest_vital glucose_history ''bloodGlucose'' 100 = Inr 90"
    using get_latest_vital_first_match [of "[]" "''bloodGlucose''" "hd glucose_history"
        "tl glucose_history" 100]
    by (simp add: glucose_history_def dict_get0_def dict_get_def float_def)
  show "spec_most_recent_value glucose_history ''bloodGlucose'' 100 = 200"
    by (simp add: glucose_history_def spec_most_recent_value_def)
  show "get_latest_vital (rev glucose_history) ''bloodGlucose'' 100 = Inr 200"
    using get_latest_vital_newest_first [of "rev glucose_history" "''bloodGlucose''" 100]
    by (simp add: glucose_history_def spec_most_recent_value_def)
  show "get_latest_vital glucose_history ''heartRate'' 150 = Inr 150"
    by (rule get_latest_vital_no_match) (simp add: glucose_history_def dict_get0_def)
qed

subsection \<open>Combination of the three assessments\<close>

lemma assess_heart_conf: "assess_heart_risk p v = Inr (s, c, fs) \<Longrightarrow> c = 0.85"
  by (auto simp: assess_heart_risk_def ebind_Inr dest: Heart_predict_range)

lemma assess_diabetes_conf: "assess_diabetes_risk p v = Inr (s, c, fs) \<Longrightarrow> c = 0.82"
  by (auto simp: assess_diabetes_risk_def ebind_Inr dest: Diabetes_predict_range)

lemma assess_stroke_conf: "assess_stroke_risk p v = Inr (s, c, fs) \<Longrightarrow> c = 0.80"
  by (auto simp: assess_stroke_risk_def ebind_Inr dest: Stroke_predict_range)

text \<open>
  Claim C2. Every assessment the aggregator returns has as its score 0.4 times the
  cardiovascular score plus 0.3 times the metabolic score plus 0.3 times the
  cerebrovascular score, as its confidence the mean of 0.85, 0.82 and 0.80, as its risk
  factors the three factor lists appended in the order cardiovascular, metabolic,
  cerebrovascular, and as its level the threshold level of the score. Combining the scores
  0.8, 0.3 and 0.3 gives the score 0.50 and the level MEDIUM.
\<close>

theorem predict_comprehensive_risk_combination:
  "(predict_comprehensive_risk cfg patient vitals_data = Inr r \<longrightarrow>
      (\<exists>hs hf ds df ss sf.
          assess_heart_risk patient vitals_data = Inr (hs, 0.85, hf)
        \<and> assess_diabetes_risk patient vitals_data = Inr (ds, 0.82, df)
        \<and> assess_stroke_risk patient vitals_data = Inr (ss, 0.80, sf)
        \<and> riskScore r = 0.4 * hs + 0.3 * ds + 0.3 * ss
        \<and> confidence r = (0.85 + 0.82 + 0.80) / 3
        \<and> riskFactors r = hf @ df @ sf
        \<and> riskLevel r = determine_risk_level cfg (riskScore r)))
   \<and> riskScore (combine_risks settings (0.8, 0.85, hf') (0.3, 0.82, df') (0.3, 0.80, sf')) = 0.50
   \<and> riskLevel (combine_risks settings (0.8, 0.85, hf') (0.3, 0.82, df') (0.3, 0.80, sf')) = MEDIUM"
proof (intro conjI impI)
  assume "predict_comprehensive_risk cfg patient vitals_data = Inr r"
  then obtain h d s where h: "assess_heart_risk patient vitals_data = Inr h"
    and d: "assess_diabetes_risk patient vitals_data = Inr d"
    and s: "assess_stroke_risk patient vitals_data = Inr s"
    and r: "r = combine_risks cfg h d s"
    by (auto simp: predict_comprehensive_risk_def ebind_Inr)
  obtain hs hc hf where h': "h = (hs, hc, hf)" by (cases h)
  obtain ds dc df where d': "d = (ds, dc, df)" by (cases d)
  obtain ss sc sf where s': "s = (ss, sc, sf)" by (cases s)
  have c: "hc = 0.85" "dc = 0.82" "sc = 0.80"
    using h d s h' d' s' assess_heart_conf assess_diabetes_conf assess_stroke_conf by blast+
  show "\<exists>hs hf ds df ss sf.
          assess_heart_risk patient vitals_data = Inr (hs, 0.85, hf)
        \<and> assess_diabetes_risk patient vitals_data = Inr (ds, 0.82, df)
        \<and> assess_stroke_risk patient vitals_data = Inr (ss, 0.80, sf)
        \<and> riskScore r = 0.4 * hs + 0.3 * ds + 0.3 * ss
        \<and> confidence r = (0.85 + 0.82 + 0.80) / 3
        \<and> riskFactors r = hf @ df @ sf
        \<and> riskLevel r = determine_risk_level cfg (riskScore r)"
    using h d s unfolding r h' d' s' c
    by (intro exI[of _ hs] exI[of _ hf] exI[of _ ds] exI[of _ df] exI[of _ ss] exI[of _ sf])
       (simp add: combine_risks_def Let_def)
next
  show "riskScore (combine_risks settings (0.8, 0.85, hf') (0.3, 0.82, df') (0.3, 0.80, sf')) = 0.50"
    by (simp add: combine_risks_def Let_def)
next
  show "riskLevel (combine_risks settings (0.8, 0.85, hf') (0.3, 0.82, df') (0.3, 0.80, sf')) = MEDIUM"
    by (simp add: combine_risks_def Let_def determine_risk_level_def settings_def)
qed

lemma obese_heart:
  "assess_heart_risk obese_patient obese_vitals =
     Inr (0.35, 0.85, [\<lparr>factor = ''High Blood Pressure'', impact = 0.3,
        description = Interp ''Blood pressure '' 145 '' mmHg is elevated''\<rparr>])"
  by (simp add: obese_patient_def obese_vitals_def aggregator_defs scorer_defs)

lemma obese_diabetes:
  "assess_diabetes_risk obese_patient obese_vitals =
     Inr (1, 0.82,
       [\<lparr>factor = ''Elevated BMI'', impact = 0.3,
          description = Interp ''BMI of '' 31 '' increases diabetes risk''\<rparr>,
        \<lparr>factor = ''Elevated Glucose'', impact = 0.3,
          description = Interp ''Fasting glucose '' 130 '' mg/dL is elevated''\<rparr>])"
  by (simp add: obese_patient_def obese_vitals_def aggregator_defs scorer_defs)

lemma obese_stroke:
  "assess_stroke_risk obese_patient obese_vitals = Inr (0.25, 0.80, [])"
  by (simp add: obese_patient_def obese_vitals_def aggregator_defs scorer_defs)

theorem predict_comprehensive_risk_combination_witness:
  "predict_comprehensive_risk settings obese_patient obese_vitals = Inr obese_assessment
   \<and> (\<exists>hs hf ds df ss sf.
          assess_heart_risk obese_patient obese_vitals = Inr (hs, 0.85, hf)
        \<and> assess_diabetes_risk obese_patient obese_vitals = Inr (ds, 0.82, df)
        \<and> assess_stroke_risk obese_patient obese_vitals = Inr (ss, 0.80, sf)
        \<and> riskScore obese_assessment = 0.4 * hs + 0.3 * ds + 0.3 * ss
        \<and> confidence obese_assessment = (0.85 + 0.82 + 0.80) / 3
        \<and> riskFactors obese_assessment = hf @ df @ sf
        \<and> riskLevel obese_assessment = determine_risk_level settings (riskScore obese_assessment))
   \<and> riskScore obese_assessment = 0.515
   \<and> riskLevel obese_assessment = MEDIUM"
proof -
  have e: "predict_comprehensive_risk settings obese_patient obese_vitals = Inr obese_assessment"
    by (simp add: predict_comprehensive_risk_def obese_heart obese_diabetes obese_stroke ebind_def
          obese_assessment_def)
  have c: "riskScore obese_assessment = 0.515" "riskLevel obese_assessment = MEDIUM"
    by (simp_all add: obese_assessment_def combine_risks_def Let_def determine_risk_level_def
          settings_def)
  from predict_comprehensive_risk_combination
         [of settings obese_patient obese_vitals obese_assessment] e c
  show ?thesis by blast
qed

subsection \<open>Concerns and recommendations\<close>

text \<open>
  Claim C10. For the patient of age 70 with hypertension and heart disease who smokes,
  with no vitals, the assessment names the stroke risk among the primary concerns and
  carries no recommendation. The recommendation list is empty exactly when the overall
  level is neither HIGH nor CRITICAL and neither the cardiovascular nor the metabolic score
  exceeds 0.5, and it does not depend on the stroke score.
\<close>

theorem stroke_concern_without_recommendation:
  "(\<exists>r. predict_comprehensive_risk settings stroke_patient [] = Inr r
        \<and> ''Increased stroke risk'' \<in> set (primaryConcerns r)
        \<and> recommendations r = [])
   \<and> (generate_recommendations lvl h d s = []) =
        (lvl \<noteq> HIGH \<and> lvl \<noteq> CRITICAL \<and> \<not> h > 0.5 \<and> \<not> d > 0.5)
   \<and> generate_recommendations lvl h d s = generate_recommendations lvl h d s'"
proof (intro conjI)
  have h: "assess_heart_risk stroke_patient [] =
      Inr (0.3, 0.85, [\<lparr>factor = ''Age'', impact = 0.3,
        description = Interp ''Age '' 70 '' increases cardiovascular risk''\<rparr>])"
    by (simp add: stroke_patient_def aggregator_defs scorer_defs)
  have d: "assess_diabetes_risk stroke_patient [] = Inr (0.15, 0.82, [])"
    by (simp add: stroke_patient_def aggregator_defs scorer_defs)
  have s: "\<exists>fs. assess_stroke_risk stroke_patient [] = Inr (0.95, 0.80, fs)"
    by (simp add: stroke_patient_def aggregator_defs scorer_defs)
  then obtain fs where s': "assess_stroke_risk stroke_patient [] = Inr (0.95, 0.80, fs)" ..
  show "\<exists>r. predict_comprehensive_risk settings stroke_patient [] = Inr r
        \<and> ''Increased stroke risk'' \<in> set (primaryConcerns r)
        \<and> recommendations r = []"
    by (simp add: predict_comprehensive_risk_def h d s' ebind_def combine_risks_def Let_def
          identify_primary_concerns_def generate_recommendations_def
          determine_risk_level_def settings_def)
next
  show "(generate_recommendations lvl h d s = []) =
        (lvl \<noteq> HIGH \<and> lvl \<noteq> CRITICAL \<and> \<not> h > 0.5 \<and> \<not> d > 0.5)"
    by (auto simp: generate_recommendations_def Let_def)
next
  show "generate_recommendations lvl h d s = generate_recommendations lvl h d s'"
    by (simp add: generate_recommendations_def)
qed

section \<open>Rounding to a double\<close>

lemma pow2_powr: "pow2 e = 2 powr of_int e"
  by (simp add: pow2_def powr_real_of_int inverse_eq_divide)

lemma pow2_pos [simp]: "0 < pow2 e"
  by (simp add: pow2_powr)

lemma pow2_nonzero [simp]: "pow2 e \<noteq> 0" "\<not> pow2 e \<le> 0"
  using pow2_pos [of e] by linarith+

lemma pow2_add: "pow2 (a + b) = pow2 a * pow2 b"
  by (simp add: pow2_powr powr_add)

lemma pow2_nat: "0 \<le> e \<Longrightarrow> pow2 e = of_int (2 ^ nat e)"
  by (simp add: pow2_def)

lemma floor_log2:
  assumes "pow2 E \<le> x" and "x < pow2 (E + 1)"
  shows "\<lfloor>log 2 x\<rfloor> = E"
proof -
  have x: "0 < x" using assms(1) pow2_pos [of E] by linarith
  have "of_int E \<le> log 2 x"
    using assms(1) x by (simp add: le_log_iff pow2_powr)
  moreover have "log 2 x < of_int E + 1"
    using assms(2) x by (simp add: log_less_iff pow2_powr)
  ultimately show ?thesis by (intro floor_unique) simp_all
qed

lemma rne_of_int [simp]: "rne (of_int k) = k"
  by (simp add: rne_def)

lemma round64_eval:
  assumes "x \<noteq> 0" and "pow2 E \<le> \<bar>x\<bar>" and "\<bar>x\<bar> < pow2 (E + 1)"
    and "e = max (E - 52) (- 1074)"
    and "r = of_int (rne (x / pow2 e)) * pow2 e"
    and "\<bar>r\<bar> < pow2 1024"
  shows "round64 x = Fin r"
  using assms floor_log2 [OF assms(2,3)] by (simp add: round64_def Let_def)

lemma round64_exact:
  assumes x: "x = of_int m * pow2 k" and m: "\<bar>m\<bar> < 2 ^ 53" and k: "- 1074 \<le> k"
    and fin: "\<bar>x\<bar> < pow2 1024"
  shows "round64 x = Fin x"
proof (cases "x = 0")
  case True
  then show ?thesis by (simp add: round64_def)
next
  case False
  define E where "E = \<lfloor>log 2 \<bar>x\<bar>\<rfloor>"
  define e where "e = max (E - 52) (- 1074)"
  have "\<bar>x\<bar> = of_int \<bar>m\<bar> * pow2 k" by (simp add: x abs_mult abs_of_pos)
  also have "\<dots> < 2 ^ 53 * pow2 k"
  proof -
    have "(of_int \<bar>m\<bar> :: real) < of_int (2 ^ 53)" using m by (simp only: of_int_less_iff)
    then show ?thesis by (simp add: mult_strict_right_mono)
  qed
  also have "\<dots> = pow2 (k + 53)"
  proof -
    have "pow2 53 = 2 ^ 53" by (simp add: pow2_def)
    then show ?thesis using pow2_add [of k 53] by simp
  qed
  finally have "\<bar>x\<bar> < 2 powr of_int (k + 53)" by (simp add: pow2_powr)
  then have "log 2 \<bar>x\<bar> < of_int (k + 53)"
    using False by (simp add: log_less_iff)
  then have "E < k + 53" unfolding E_def by (simp add: floor_less_iff)
  then have ek: "e \<le> k" using k by (simp add: e_def)
  have "pow2 k = pow2 (k - e) * pow2 e"
    using pow2_add [of "k - e" e] by simp
  then have "x / pow2 e = of_int m * pow2 (k - e)" by (simp add: x)
  also have "\<dots> = of_int (m * 2 ^ nat (k - e))" using ek by (simp add: pow2_nat)
  finally have q: "x / pow2 e = of_int (m * 2 ^ nat (k - e))" .
  have r: "of_int (rne (x / pow2 e)) * pow2 e = x"
    unfolding q rne_of_int using q by (simp add: field_simps)
  show ?thesis
    using False fin r by (simp add: round64_def Let_def E_def [symmetric] e_def [symmetric])
qed

lemma round64_tiny:
  assumes "\<bar>x\<bar> \<le> pow2 (- 1075)"
  shows "round64 x = Fin 0"
proof (cases "x = 0")
  case True
  then show ?thesis by (simp add: round64_def)
next
  case False
  define E where "E = \<lfloor>log 2 \<bar>x\<bar>\<rfloor>"
  have "\<bar>x\<bar> \<le> 2 powr of_int (- 1075)" using assms by (simp add: pow2_powr)
  then have "log 2 \<bar>x\<bar> \<le> of_int (- 1075)"
    using False by (simp add: log_le_iff)
  then have "E \<le> - 1075" unfolding E_def by (simp add: floor_le_iff)
  then have e: "max (E - 52) (- 1074) = - 1074" by simp
  define q where "q = x / pow2 (- 1074)"
  have "pow2 (- 1075) = pow2 (- 1074) / 2" by (simp add: pow2_def)
  then have "\<bar>q\<bar> \<le> 1 / 2"
    using assms by (simp add: q_def field_simps)
  then have "rne q = 0"
  proof (cases "0 \<le> q")
    case True
    with \<open>\<bar>q\<bar> \<le> 1 / 2\<close> have "\<lfloor>q\<rfloor> = 0" by (intro floor_unique) simp_all
    with True \<open>\<bar>q\<bar> \<le> 1 / 2\<close> show ?thesis by (simp add: rne_def Let_def)
  next
    case False
    with \<open>\<bar>q\<bar> \<le> 1 / 2\<close> have "\<lfloor>q\<rfloor> = - 1" by (intro floor_unique) simp_all
    with False \<open>\<bar>q\<bar> \<le> 1 / 2\<close> show ?thesis by (simp add: rne_def Let_def)
  qed
  then show ?thesis
    using False by (simp add: round64_def Let_def E_def [symmetric] e q_def [symmetric])
qed

lemma round64_exactI:
  assumes "x = of_int m * pow2 k" and "\<bar>m\<bar> < 2 ^ 53" and "- 1074 \<le> k"
    and "\<bar>x\<bar> < pow2 1024" and "r = x"
  shows "round64 x = Fin r"
  using round64_exact [OF assms(1-4)] assms(5) by simp

lemma round64_0 [simp]: "round64 0 = Fin 0"
  by (simp add: round64_def)

lemma round64_50: "round64 50 = Fin 50"
  by (rule round64_exactI [where m = 25 and k = 1]) (simp_all add: pow2_def)

lemma round64_half: "round64 (1 / 2) = Fin (1 / 2)"
  by (rule round64_exactI [where m = 1 and k = "- 1"]) (simp_all add: pow2_def)


lemma round64_1_5: "round64 (1 / 5) = Fin d_0_2"
  by (rule round64_eval [where E = "- 3" and e = "- 55"])
     (simp_all add: pow2_def rne_def d_0_2_def)

lemma round64_3_10: "round64 (3 / 10) = Fin d_0_3"
  by (rule round64_eval [where E = "- 2" and e = "- 54"])
     (simp_all add: pow2_def rne_def d_0_3_def)

text \<open>A quotient just above 0.2: it is rounded to the double next above the double 0.2.\<close>

lemma round64_ratio_above: "round64 (1351079888211149 / 2 ^ 49 / 12) = Fin (7205759403792795 / 2 ^ 55)"
  by (rule round64_eval [where E = "- 3" and e = "- 55"])
     (simp_all add: pow2_def rne_def)

lemma round64_ratio_above_100:
  "round64 (7205759403792795 / 2 ^ 55 * 100) = Fin (5629499534213121 / 2 ^ 48)"
  by (rule round64_eval [where E = 4 and e = "- 48"])
     (simp_all add: pow2_def rne_def)

section \<open>Trend analysis\<close>

subsection \<open>Empty input\<close>

text \<open>
  Claim C9. On an empty list of readings \<^verbatim>\<open>analyze_trend\<close> returns the empty analysis, for
  every vital type and number of days: no statistics, the trend \<open>no_data\<close>, no anomalies
  and no forecast. Nothing is computed, so the result does not depend on the regression
  routine.
\<close>

theorem analyze_trend_empty:
  "analyze_trend linregress [] vital_type days = Inr empty_analysis
   \<and> statistics empty_analysis = Map.empty
   \<and> trend empty_analysis = ''no_data''
   \<and> anomalies empty_analysis = []
   \<and> forecast empty_analysis = []"
  by (simp add: analyze_trend_def empty_analysis_def)

subsection \<open>Risk level of a vital\<close>














subsection \<open>Statistical anomalies of a series without variance\<close>

lemma round64_quarter: "round64 (1 / 4) = Fin (1 / 4)"
  by (rule round64_exactI [where m = 1 and k = "- 2"]) (simp_all add: pow2_def)

lemma round64_3_4: "round64 (3 / 4) = Fin (3 / 4)"
  by (rule round64_exactI [where m = 3 and k = "- 2"]) (simp_all add: pow2_def)

lemma round64_3_2: "round64 (3 / 2) = Fin (3 / 2)"
  by (rule round64_exactI [where m = 3 and k = "- 1"]) (simp_all add: pow2_def)

text \<open>The quartiles of three equal values are that value.\<close>

lemma np_percentile_three_equal:
  assumes "round64 c = Fin c"
  shows "np_percentile [c, c, c] 25 = Fin c" and "np_percentile [c, c, c] 75 = Fin c"
proof -
  have l: "np_lerp (Fin c) (Fin c) (Fin (1 / 2)) = Fin c"
    by (simp add: np_lerp_def Let_def fsub_def np_ge_def round64_half assms)
  show "np_percentile [c, c, c] 25 = Fin c"
    by (simp add: np_percentile_def Let_def fsub_def round64_quarter round64_half l)
  show "np_percentile [c, c, c] 75 = Fin c"
    by (simp add: np_percentile_def Let_def fsub_def round64_3_4 round64_3_2 round64_half l)
qed

lemma bounds_three_equal:
  assumes "round64 c = Fin c"
  shows "fsub (Fin c) (fmul (Fin 1.5) (fsub (Fin c) (Fin c))) = Fin c"
    and "fadd (Fin c) (fmul (Fin 1.5) (fsub (Fin c) (Fin c))) = Fin c"
  by (simp_all add: fsub_def assms)

text \<open>Three readings of 98: the mean is 98, every deviation is 0, every z-score is NaN.\<close>

lemma round64_98: "round64 98 = Fin 98"
  by (rule round64_exactI [where m = 49 and k = 1]) (simp_all add: pow2_def)

lemma round64_196: "round64 196 = Fin 196"
  by (rule round64_exactI [where m = 49 and k = 2]) (simp_all add: pow2_def)

lemma round64_294: "round64 294 = Fin 294"
  by (rule round64_exactI [where m = 147 and k = 1]) (simp_all add: pow2_def)

lemma steady_mean: "np_mean [Fin 98, Fin 98, Fin 98] = Fin 98"
  by (simp add: np_mean_def round64_196 round64_294 round64_98)

lemma steady_std: "np_std [Fin 98, Fin 98, Fin 98] = Fin 0"
  by (simp add: np_std_def np_var_def Let_def steady_mean fsub_def)

lemma steady_result: "detect_anomalies steady_readings = []"
  by (simp add: detect_anomalies_def Let_def steady_readings_def steady_mean steady_std
        np_percentile_three_equal [OF round64_98] bounds_three_equal [OF round64_98]
        fsub_def inf_of_sign_def anomaly_of_row_def np_gt_def round64_98)

text \<open>
  Three readings of \<open>3e-171\<close>: the sum of the three is rounded, and so is its third, to the
  double next above the common value. Every deviation from this mean is one unit in the
  last place, \<open>- 2 ^ -619\<close>; its square underflows to 0. The standard deviation is 0, and
  every deviation divided by it is infinite.
\<close>

lemma round64_3e_171: "round64 (3 / 10 ^ 171) = Fin d_3e_171"
  by (rule round64_eval [where E = "- 567" and e = "- 619"])
     (simp_all add: pow2_def rne_def d_3e_171_def)

lemma round64_tiny_self: "round64 d_3e_171 = Fin d_3e_171"
  by (rule round64_exactI [where m = 3263311827866217 and k = "- 618"])
     (simp_all add: pow2_def d_3e_171_def)

lemma tiny_sum2: "round64 (d_3e_171 + d_3e_171) = Fin (3263311827866217 / 2 ^ 617)"
  by (rule round64_exactI [where m = 3263311827866217 and k = "- 617"])
     (simp_all add: pow2_def d_3e_171_def)

lemma tiny_sum3: "round64 (3263311827866217 / 2 ^ 617 + d_3e_171) = Fin (2447483870899663 / 2 ^ 616)"
  by (rule round64_eval [where E = "- 565" and e = "- 617"])
     (simp_all add: pow2_def rne_def d_3e_171_def)

lemma tiny_div3: "round64 (2447483870899663 / 2 ^ 616 / 3) = Fin (6526623655732435 / 2 ^ 619)"
  by (rule round64_eval [where E = "- 567" and e = "- 619"])
     (simp_all add: pow2_def rne_def)

lemma tiny_mean:
  "np_mean [Fin d_3e_171, Fin d_3e_171, Fin d_3e_171] = Fin (6526623655732435 / 2 ^ 619)"
  using tiny_sum2 tiny_sum3 tiny_div3 by (simp add: np_mean_def)

lemma tiny_dev: "fsub (Fin d_3e_171) (Fin (6526623655732435 / 2 ^ 619)) = Fin (- (1 / 2 ^ 619))"
  unfolding fsub_def fneg.simps fadd.simps
  by (rule round64_exactI [where m = "- 1" and k = "- 619"])
     (simp_all add: pow2_def d_3e_171_def)

lemma tiny_square: "fmul (Fin (- (1 / 2 ^ 619))) (Fin (- (1 / 2 ^ 619))) = Fin 0"
  unfolding fmul.simps by (rule round64_tiny) (simp add: pow2_def)

lemma tiny_std: "np_std [Fin d_3e_171, Fin d_3e_171, Fin d_3e_171] = Fin 0"
  using tiny_mean tiny_dev tiny_square by (simp add: np_std_def np_var_def Let_def)

lemma tiny_result:
  "detect_anomalies tiny_readings =
     [\<lparr>a_timestamp = 1, a_value = d_3e_171, a_severity = ''high'',
       a_reason = [ZScoreRule PInf], a_deviation = PInf\<rparr>,
      \<lparr>a_timestamp = 2, a_value = d_3e_171, a_severity = ''high'',
       a_reason = [ZScoreRule PInf], a_deviation = PInf\<rparr>,
      \<lparr>a_timestamp = 3, a_value = d_3e_171, a_severity = ''high'',
       a_reason = [ZScoreRule PInf], a_deviation = PInf\<rparr>]"
  using tiny_mean tiny_std tiny_dev bounds_three_equal [OF round64_tiny_self]
  by (simp add: detect_anomalies_def Let_def tiny_readings_def
        np_percentile_three_equal [OF round64_tiny_self]
        inf_of_sign_def anomaly_of_row_def np_gt_def round64_tiny_self)

text \<open>
  Claim C5. The claim is that for every series of population standard deviation 0 the
  detector flags no point by the z-score rule. For three readings of 98 the computed
  standard deviation is 0 and no point is flagged. For three readings of \<open>3e-171\<close> the
  computed standard deviation is 0 as well, and every point is flagged by the z-score rule,
  with an infinite z-score and the severity \<open>high\<close>: \<^verbatim>\<open>_detect_anomalies\<close> divides by the
  standard deviation without testing it.
\<close>

theorem detect_anomalies_zero_std_flags:
  "np_std (map Fin (map r_value steady_readings)) = Fin 0
   \<and> detect_anomalies steady_readings = []
   \<and> round64 (3 / 10 ^ 171) = Fin d_3e_171
   \<and> np_std (map Fin (map r_value tiny_readings)) = Fin 0
   \<and> detect_anomalies tiny_readings =
       [\<lparr>a_timestamp = 1, a_value = d_3e_171, a_severity = ''high'',
         a_reason = [ZScoreRule PInf], a_deviation = PInf\<rparr>,
        \<lparr>a_timestamp = 2, a_value = d_3e_171, a_severity = ''high'',
         a_reason = [ZScoreRule PInf], a_deviation = PInf\<rparr>,
        \<lparr>a_timestamp = 3, a_value = d_3e_171, a_severity = ''high'',
         a_reason = [ZScoreRule PInf], a_deviation = PInf\<rparr>]"
  using steady_std steady_result round64_3e_171 tiny_std tiny_result
  by (simp add: steady_readings_def tiny_readings_def)

section \<open>Sudden changes\<close>

lemma sudden_changes_loop_flags:
  assumes "\<forall>i \<in> set is. i < length timestamps"
  shows "sudden_changes_loop is values timestamps threshold changes =
           Inr (changes @ map (flagged_entry values timestamps)
                  (filter (\<lambda>i. np_gt (pct_change_at values i) (Fin threshold)) is))"
  using assms
proof (induction "is" arbitrary: changes)
  case Nil
  then show ?case by simp
next
  case (Cons i "is")
  then show ?case by (simp add: Let_def flagged_entry_def)
qed

text \<open>
  Claim C6. For every series whose previous values are not zero, every threshold and every
  array of timestamps at least as long as the series, \<^verbatim>\<open>detect_sudden_changes\<close> returns the
  entries of exactly the indices \<open>i \<ge> 1\<close> whose ratio \<open>|v[i] - v[i-1]| / v[i-1]\<close>, computed
  in double arithmetic, exceeds the threshold, in increasing order of \<open>i\<close>; the entry
  records the ratio times 100 as the change in percent and the severity \<open>high\<close> when the
  ratio exceeds the double 0.3, \<open>medium\<close> otherwise.
\<close>

theorem detect_sudden_changes_flags:
  assumes "\<forall>i. 1 \<le> i \<and> i < length values \<longrightarrow> values ! (i - 1) \<noteq> 0"
    and "length values \<le> length timestamps"
  shows "detect_sudden_changes values timestamps threshold =
           Inr (map (flagged_entry values timestamps)
                  (filter (\<lambda>i. np_gt (pct_change_at values i) (Fin threshold))
                     [1..<length values]))"
  using assms(2) unfolding detect_sudden_changes_def
  by (subst sudden_changes_loop_flags) auto

text \<open>The decimal literal 1.8 as a double, and the step from 1.5 to 1.8.\<close>

lemma round64_9_5: "round64 (9 / 5) = Fin d_1_8"
  by (rule round64_eval [where E = 0 and e = "- 52"])
     (simp_all add: pow2_def rne_def d_1_8_def)

lemma round64_step_diff: "round64 (d_1_8 - 3 / 2) = Fin (1351079888211149 / 2 ^ 52)"
  by (rule round64_exactI [where m = 1351079888211149 and k = "- 52"])
     (simp_all add: pow2_def d_1_8_def)

lemma pct_step: "pct_change_at [3 / 2, d_1_8] (Suc 0) = Fin (7205759403792795 / 2 ^ 55)"
  using round64_step_diff round64_ratio_above
  by (simp add: pct_change_at_def fsub_def)

lemma pct_100_100: "pct_change_at [100, 100, 150] (Suc 0) = Fin 0"
  by (simp add: pct_change_at_def fsub_def)

lemma pct_100_150: "pct_change_at [100, 100, 150] (Suc (Suc 0)) = Fin (1 / 2)"
  by (simp add: pct_change_at_def fsub_def round64_50 round64_half)

text \<open>
  On \<open>[100, 100, 150]\<close> with the threshold 0.2 only index 2 is flagged, with 50 percent and
  the severity \<open>high\<close>. On \<open>[1.5, 1.8]\<close> the computed ratio is 0.20000000000000004, above
  the threshold 0.2: index 1 is flagged with 20.000000000000004 percent and the severity
  \<open>medium\<close>.
\<close>

theorem detect_sudden_changes_flags_witness:
  "round64 (1 / 5) = Fin d_0_2 \<and> round64 (3 / 10) = Fin d_0_3 \<and> round64 (9 / 5) = Fin d_1_8
   \<and> length [100, 100, 150 :: real] \<le> length [''t0'', ''t1'', ''t2'']
   \<and> detect_sudden_changes [100, 100, 150] [''t0'', ''t1'', ''t2''] d_0_2 =
       Inr [\<lparr>sc_timestamp = ''t2'', sc_previous_value = 100, sc_current_value = 150,
             sc_change_percent = Fin 50, sc_severity = ''high''\<rparr>]
   \<and> detect_sudden_changes [3 / 2, d_1_8] [''t0'', ''t1''] d_0_2 =
       Inr [\<lparr>sc_timestamp = ''t1'', sc_previous_value = 3 / 2, sc_current_value = d_1_8,
             sc_change_percent = Fin (5629499534213121 / 2 ^ 48), sc_severity = ''medium''\<rparr>]"
proof -
  have h1: "\<forall>i. 1 \<le> i \<and> i < length [100, 100, 150 :: real]
              \<longrightarrow> [100, 100, 150 :: real] ! (i - 1) \<noteq> 0"
    by (auto simp: nth_Cons split: nat.splits)
  have h2: "length [100, 100, 150 :: real] \<le> length [''t0'', ''t1'', ''t2'']" by simp
  have u: "[1..<length [100, 100, 150 :: real]] = [1, 2]" by (simp add: upt_rec)
  have a: "detect_sudden_changes [100, 100, 150] [''t0'', ''t1'', ''t2''] d_0_2 =
       Inr [\<lparr>sc_timestamp = ''t2'', sc_previous_value = 100, sc_current_value = 150,
             sc_change_percent = Fin 50, sc_severity = ''high''\<rparr>]"
    using detect_sudden_changes_flags [OF h1 h2, of d_0_2]
    by (simp add: u pct_100_100 pct_100_150 flagged_entry_def np_gt_def d_0_2_def d_0_3_def
          round64_50)
  have g1: "\<forall>i. 1 \<le> i \<and> i < length [3 / 2, d_1_8]
              \<longrightarrow> [3 / 2, d_1_8] ! (i - 1) \<noteq> 0"
    by (auto simp: nth_Cons split: nat.splits)
  have g2: "length [3 / 2, d_1_8] \<le> length [''t0'', ''t1'']" by simp
  have v: "[1..<length [3 / 2, d_1_8]] = [1]" by (simp add: upt_rec)
  have b: "detect_sudden_changes [3 / 2, d_1_8] [''t0'', ''t1''] d_0_2 =
       Inr [\<lparr>sc_timestamp = ''t1'', sc_previous_value = 3 / 2, sc_current_value = d_1_8,
             sc_change_percent = Fin (5629499534213121 / 2 ^ 48), sc_severity = ''medium''\<rparr>]"
    using detect_sudden_changes_flags [OF g1 g2, of d_0_2] round64_ratio_above_100
    by (simp add: v pct_step flagged_entry_def np_gt_def d_0_2_def d_0_3_def)
  from a b h2 round64_1_5 round64_3_10 round64_9_5 show ?thesis by blast
qed

text \<open>
  With fewer timestamps than values the function raises instead: on the values
  \<open>[100, 150]\<close>, whose previous value is not zero, and a single timestamp, index 1 is
  flagged and reading its timestamp raises \<^verbatim>\<open>IndexError\<close>.
\<close>

theorem detect_sudden_changes_short_timestamps:
  "detect_sudden_changes [100, 150] [''t0''] d_0_2 = Inl IndexError
   \<and> [100, 150 :: real] ! 0 \<noteq> 0"
proof -
  have "pct_change_at [100, 150] 1 = Fin (1 / 2)"
    by (simp add: pct_change_at_def fsub_def round64_50 round64_half)
  then show ?thesis
    by (simp add: detect_sudden_changes_def upt_rec np_gt_def d_0_2_def)
qed

section \<open>Trend classification\<close>

subsection \<open>The Student t distribution far out in the tail\<close>





subsection \<open>Four degrees of freedom\<close>


subsection \<open>Three series in exact arithmetic\<close>













subsection \<open>The classification\<close>




end
